theory Spec2Isabelle
  imports Complex_Main "HOL-Library.Word"
begin

section \<open>The two matrix backends of paysage\<close>

text \<open>
  The repository holds two modules with the same function table:
  \<^verbatim>\<open>paysage/backends/python_backend/matrix.py\<close> (numpy, numexpr, numba) and
  \<^verbatim>\<open>paysage/backends/pytorch_backend/matrix.py\<close> (torch). Definitions prefixed
  \<open>py_\<close> embed the first, definitions prefixed \<open>torch_\<close> the second; where only
  one backend has real code (the distance functions) the source's name is kept
  unprefixed for the python version.

  Modelling decisions, valid for the whole theory:
  \<^item> a tensor is a two-dimensional array, as the docstrings and the numba
    signatures (\<^verbatim>\<open>float32[:,:]\<close>) of the source have it: a column count and a list
    of rows. A vector (\<^verbatim>\<open>float32[:]\<close>) is a list;
  \<^item> float32 entries are elements of an arithmetic type: a type variable with
    the algebraic laws a proof needs, or \<open>real\<close> where a square root is taken.
    Rounding is outside the embedding: the theorems are about exact arithmetic;
  \<^item> Python passes arrays by reference and several functions write into an
    argument. Such functions take addresses and a heap that maps addresses to
    tensors, and return the new heap;
  \<^item> every exception of the source is a value \<open>Inl e\<close> of the result.
\<close>

subsection \<open>Data\<close>

datatype error =
    NotImplementedError
  | TypeError
  | ValueError
  | IndexError
  | ZeroDivisionError
  | RuntimeError

datatype 'a tensor = Tensor (ncols: nat) (cells: "'a list list")

definition nrows :: "'a tensor \<Rightarrow> nat" where
  "nrows t = length (cells t)"

definition wf_tensor :: "'a tensor \<Rightarrow> bool" where
  "wf_tensor t = list_all (\<lambda>r. length r = ncols t) (cells t)"

definition shape :: "'a tensor \<Rightarrow> nat \<times> nat" where
  "shape t = (nrows t, ncols t)"

type_synonym addr = nat

type_synonym 'a heap = "addr \<Rightarrow> 'a tensor"

datatype dtype = Float32

subsection \<open>Errors as values, loops, indexing\<close>

definition ebind :: "error + 'a \<Rightarrow> ('a \<Rightarrow> error + 'b) \<Rightarrow> error + 'b" where
  "ebind m f = (case m of Inl e \<Rightarrow> Inl e | Inr x \<Rightarrow> f x)"

text \<open>
  A \<^verbatim>\<open>for\<close> loop that updates an accumulator: the body is run for each index in
  order, and the first exception ends the loop.
\<close>

fun for_loop :: "'i list \<Rightarrow> ('i \<Rightarrow> 's \<Rightarrow> error + 's) \<Rightarrow> 's \<Rightarrow> error + 's" where
  "for_loop [] body s = Inr s"
| "for_loop (i # rest) body s = ebind (body i s) (for_loop rest body)"

text \<open>
  Reading an array at an index. The compiled code (numba, \<^verbatim>\<open>nopython=True\<close>) does
  not check bounds: a read outside the array raises nothing, and what the function
  returns after it depends on the memory beside the array. The model marks such a read
  with \<open>IndexError\<close> and stops there. \<open>IndexError\<close> is a detector of the read, not
  the result of the compiled code: a statement about results is made only for runs
  that are free of it.
\<close>

definition get :: "'a list \<Rightarrow> nat \<Rightarrow> error + 'a" where
  "get xs i = (if i < length xs then Inr (xs ! i) else Inl IndexError)"

definition get_row :: "'a tensor \<Rightarrow> nat \<Rightarrow> error + 'a list" where
  "get_row t i = get (cells t) i"

text \<open>Division by an integer; numba's default error model raises on a zero divisor.\<close>

definition fdiv :: "real \<Rightarrow> nat \<Rightarrow> error + real" where
  "fdiv x k = (if k = 0 then Inl ZeroDivisionError else Inr (x / real k))"

subsection \<open>The distance functions of the python backend\<close>

text \<open>
  \<^verbatim>\<open>
  def squared_euclidean_distance(a, b):
      result = numpy.float32(0.0)
      for i in range(len(a)):
          result += (a[i] - b[i])**2
      return result
  \<close>
  The loop runs over the length of \<open>a\<close>: when \<open>b\<close> is shorter, \<^verbatim>\<open>b[i]\<close> is a
  read out of bounds, marked as above. The sum is taken in exact arithmetic; the
  compiled code rounds to float32.
\<close>

definition squared_euclidean_distance :: "real list \<Rightarrow> real list \<Rightarrow> error + real" where
  "squared_euclidean_distance a b =
     for_loop [0..<length a]
       (\<lambda>i result. ebind (get a i) (\<lambda>ai. ebind (get b i) (\<lambda>bi.
          Inr (result + (ai - bi)\<^sup>2))))
       0"

text \<open>
  \<^verbatim>\<open>return math.sqrt(squared_euclidean_distance(a, b))\<close>; \<^verbatim>\<open>math.sqrt\<close> raises
  ValueError on a negative argument.
\<close>

definition euclidean_distance :: "real list \<Rightarrow> real list \<Rightarrow> error + real" where
  "euclidean_distance a b =
     ebind (squared_euclidean_distance a b)
       (\<lambda>s. if s < 0 then Inl ValueError else Inr (sqrt s))"

text \<open>
  The random generator is global state of the library. Its state is the sequence of
  values it will produce; \<^verbatim>\<open>numpy.random.choice(numpy.arange(k), size=n)\<close> takes
  the next \<open>n\<close> values, each reduced to an index below \<open>k\<close> (sampling with
  replacement, the default), and leaves the generator advanced by \<open>n\<close>. A negative
  size, or a draw from an empty population, is a ValueError.
\<close>

type_synonym rng = "nat \<Rightarrow> nat"

definition random_choice :: "nat \<Rightarrow> int \<Rightarrow> rng \<Rightarrow> (error + nat list) \<times> rng" where
  "random_choice k sz g =
     (if sz < 0 \<or> (k = 0 \<and> 0 < sz) then (Inl ValueError, g)
      else (Inr (map (\<lambda>i. g i mod k) [0..<nat sz]), (\<lambda>i. g (i + nat sz))))"

text \<open>
  One term of the sums of \<^verbatim>\<open>fast_energy_distance\<close>:
  \<^verbatim>\<open>euclidean_distance(A[ia[i]], B[ib[j]])\<close>.
\<close>

definition indexed_distance ::
  "real tensor \<Rightarrow> nat list \<Rightarrow> nat \<Rightarrow> real tensor \<Rightarrow> nat list \<Rightarrow> nat \<Rightarrow> error + real" where
  "indexed_distance A ia i B ib j =
     ebind (get ia i) (\<lambda>p. ebind (get_row A p) (\<lambda>a.
     ebind (get ib j) (\<lambda>q. ebind (get_row B q) (\<lambda>b.
       euclidean_distance a b))))"

text \<open>
  The three loops of \<^verbatim>\<open>fast_energy_distance\<close>, after the indices are drawn:
  \<^verbatim>\<open>
  for i in range(n-1):
      for j in range(i+1, n):
          d1 += euclidean_distance(minibatch[index_1[i]], minibatch[index_1[j]])
  d1 = 2.0 * d1 / (n*n - n)

  for i in range(m-1):
      for j in range(i+1, m):
          d2 += euclidean_distance(samples[index_1[i]], samples[index_2[j]])
  d2 = 2.0 * d2 / (m*m - m)

  for i in index_1:
      for j in index_2:
          d3 += euclidean_distance(minibatch[i], samples[j])
  d3 = d3 / (n*m)

  return 2.0 * d3 - d2 - d1
  \<close>
  The second loop reads \<^verbatim>\<open>index_1[i]\<close>, as the source does.
\<close>

definition energy_loops ::
  "real tensor \<Rightarrow> real tensor \<Rightarrow> nat \<Rightarrow> nat \<Rightarrow> nat list \<Rightarrow> nat list \<Rightarrow> error + real" where
  "energy_loops minibatch samples n m index_1 index_2 =
     ebind (for_loop [0..<n - 1] (\<lambda>i. for_loop [i + 1..<n] (\<lambda>j d1.
              ebind (indexed_distance minibatch index_1 i minibatch index_1 j)
                (\<lambda>e. Inr (d1 + e)))) 0) (\<lambda>d1.
     ebind (fdiv (2 * d1) (n * n - n)) (\<lambda>d1.
     ebind (for_loop [0..<m - 1] (\<lambda>i. for_loop [i + 1..<m] (\<lambda>j d2.
              ebind (indexed_distance samples index_1 i samples index_2 j)
                (\<lambda>e. Inr (d2 + e)))) 0) (\<lambda>d2.
     ebind (fdiv (2 * d2) (m * m - m)) (\<lambda>d2.
     ebind (for_loop index_1 (\<lambda>i. for_loop index_2 (\<lambda>j d3.
              ebind (get_row minibatch i) (\<lambda>a. ebind (get_row samples j) (\<lambda>b.
              ebind (euclidean_distance a b) (\<lambda>e. Inr (d3 + e)))))) 0) (\<lambda>d3.
     ebind (fdiv d3 (n * m)) (\<lambda>d3.
       Inr (2 * d3 - d2 - d1)))))))"

text \<open>
  \<^verbatim>\<open>
  @jit('float32(float32[:,:],float32[:,:], int16)',nopython=True)
  def fast_energy_distance(minibatch, samples, downsample=100):
      n = min(len(minibatch), downsample)
      m = min(len(samples), downsample)
      index_1 = numpy.random.choice(numpy.arange(len(minibatch)), size=n)
      index_2 = numpy.random.choice(numpy.arange(len(samples)), size=m)
      ...
  \<close>
  \<open>downsample\<close> is a signed 16-bit integer, read with \<open>sint\<close>. The function
  takes the state of the random generator and returns the state it leaves.
\<close>

definition fast_energy_distance ::
  "real tensor \<Rightarrow> real tensor \<Rightarrow> 16 word \<Rightarrow> rng \<Rightarrow> (error + real) \<times> rng" where
  "fast_energy_distance minibatch samples downsample g =
     (let n = min (int (nrows minibatch)) (sint downsample);
          m = min (int (nrows samples)) (sint downsample)
      in case random_choice (nrows minibatch) n g of
           (Inl e, g1) \<Rightarrow> (Inl e, g1)
         | (Inr index_1, g1) \<Rightarrow>
             (case random_choice (nrows samples) m g1 of
                (Inl e, g2) \<Rightarrow> (Inl e, g2)
              | (Inr index_2, g2) \<Rightarrow>
                  (energy_loops minibatch samples (nat n) (nat m) index_1 index_2, g2)))"

subsection \<open>The energy distance as the specification words it\<close>

text \<open>
  These definitions follow the specification, not the source: the euclidean distance
  of two vectors, the mean distance over all pairs of one row of each subsample, and
  the mean distance over the pairs of two different positions of one subsample.
\<close>

definition spec_distance :: "real list \<Rightarrow> real list \<Rightarrow> real" where
  "spec_distance a b = sqrt (\<Sum>i<length a. (a ! i - b ! i)\<^sup>2)"

definition spec_mean_between :: "real list list \<Rightarrow> real list list \<Rightarrow> real" where
  "spec_mean_between xs ys =
     (\<Sum>x\<leftarrow>xs. \<Sum>y\<leftarrow>ys. spec_distance x y) / real (length xs * length ys)"

definition spec_mean_within :: "real list list \<Rightarrow> real" where
  "spec_mean_within xs =
     (\<Sum>j<length xs. \<Sum>i<j. spec_distance (xs ! i) (xs ! j))
       / real (length xs * (length xs - 1) div 2)"

definition spec_energy_distance :: "real list list \<Rightarrow> real list list \<Rightarrow> real" where
  "spec_energy_distance xs ys =
     2 * spec_mean_between xs ys - spec_mean_within ys - spec_mean_within xs"

subsection \<open>Primitives of the libraries\<close>

text \<open>
  The functions of numpy, numexpr and torch that the wrappers below call, on
  two-dimensional arrays, after the documentation of the libraries.

  A scalar applied to every entry (\<^verbatim>\<open>EPSILON + y\<close>, \<^verbatim>\<open>x.mul_(w)\<close>,
  \<^verbatim>\<open>torch.sqrt(t)\<close>):
\<close>

definition tmap :: "('a \<Rightarrow> 'b) \<Rightarrow> 'a tensor \<Rightarrow> 'b tensor" where
  "tmap f t = Tensor (ncols t) (map (map f) (cells t))"

text \<open>
  numpy and numexpr combine two arrays entry by entry after broadcasting: two
  dimensions are compatible when they are equal or one of them is 1, and a dimension
  of size 1 is stretched. Incompatible shapes are a ValueError.
\<close>

definition broadcast_dim :: "nat \<Rightarrow> nat \<Rightarrow> nat option" where
  "broadcast_dim a b =
     (if a = b then Some a else if a = 1 then Some b else if b = 1 then Some a else None)"

definition bcell :: "'a tensor \<Rightarrow> nat \<Rightarrow> nat \<Rightarrow> 'a" where
  "bcell t i j = cells t ! (if nrows t = 1 then 0 else i) ! (if ncols t = 1 then 0 else j)"

definition np_elementwise ::
  "('a \<Rightarrow> 'b \<Rightarrow> 'c) \<Rightarrow> 'a tensor \<Rightarrow> 'b tensor \<Rightarrow> error + 'c tensor" where
  "np_elementwise f x y =
     (case (broadcast_dim (nrows x) (nrows y), broadcast_dim (ncols x) (ncols y)) of
        (Some r, Some c) \<Rightarrow>
          Inr (Tensor c (map (\<lambda>i. map (\<lambda>j. f (bcell x i j) (bcell y i j)) [0..<c]) [0..<r]))
      | _ \<Rightarrow> Inl ValueError)"

text \<open>
  \<^verbatim>\<open>ne.evaluate(expr, out=x)\<close> stores the result in \<open>x\<close>; the result must have
  the shape of \<open>x\<close>.
\<close>

definition ne_evaluate_out ::
  "('a \<Rightarrow> 'a \<Rightarrow> 'a) \<Rightarrow> addr \<Rightarrow> addr \<Rightarrow> addr \<Rightarrow> 'a heap \<Rightarrow> (error + unit) \<times> 'a heap" where
  "ne_evaluate_out f x y out h =
     (case np_elementwise f (h x) (h y) of
        Inl e \<Rightarrow> (Inl e, h)
      | Inr r \<Rightarrow>
          if shape r = shape (h out) then (Inr (), h(out := r)) else (Inl ValueError, h))"

text \<open>
  torch combines two tensors entry by entry without broadcasting (the source:
  \<^verbatim>\<open>pytorch does not have broadcasting yet!\<close>): tensors of different shapes are
  taken to be refused with a RuntimeError.
\<close>

definition torch_pointwise ::
  "('a \<Rightarrow> 'b \<Rightarrow> 'c) \<Rightarrow> 'a tensor \<Rightarrow> 'b tensor \<Rightarrow> error + 'c tensor" where
  "torch_pointwise f x y =
     (if shape x = shape y
      then Inr (Tensor (ncols x) (map2 (map2 f) (cells x) (cells y)))
      else Inl RuntimeError)"

subsection \<open>mix_inplace and sqrt_div\<close>

text \<open>\<^verbatim>\<open>EPSILON = numpy.finfo(numpy.float32).eps\<close>, that is \<open>2\<^sup>-\<^sup>2\<^sup>3\<close>.\<close>

definition EPSILON :: real where
  "EPSILON = 1 / 2 ^ 23"

text \<open>
  python backend:
  \<^verbatim>\<open>def mix_inplace(w,x,y): ne.evaluate('w*x + (1-w)*y', out=x)\<close>
\<close>

definition py_mix_inplace ::
  "'a::{times,plus,minus,one} \<Rightarrow> addr \<Rightarrow> addr \<Rightarrow> 'a heap \<Rightarrow> (error + unit) \<times> 'a heap" where
  "py_mix_inplace w x y h = ne_evaluate_out (\<lambda>a b. w * a + (1 - w) * b) x y x h"

text \<open>
  pytorch backend:
  \<^verbatim>\<open>
  def mix_inplace(w,x,y):
      x.mul_(w)
      x.add_(y.mul(1-w))
  \<close>
  The first statement has already changed \<open>x\<close> when the second reads \<open>y\<close>.
\<close>

definition torch_mix_inplace ::
  "'a::{times,plus,minus,one} \<Rightarrow> addr \<Rightarrow> addr \<Rightarrow> 'a heap \<Rightarrow> (error + unit) \<times> 'a heap" where
  "torch_mix_inplace w x y h =
     (let h1 = h(x := tmap (\<lambda>a. a * w) (h x));
          t = tmap (\<lambda>b. b * (1 - w)) (h1 y)
      in case torch_pointwise (+) (h1 x) t of
           Inl e \<Rightarrow> (Inl e, h1)
         | Inr r \<Rightarrow> (Inr (), h1(x := r)))"

text \<open>
  python backend:
  \<^verbatim>\<open>
  def sqrt_div(x,y):
      z = EPSILON + y
      return ne.evaluate('x/sqrt(z)')
  \<close>
  The one library call of the body is \<open>ne_div_sqrt\<close>; the result is a new array.
\<close>

definition ne_div_sqrt :: "real tensor \<Rightarrow> real tensor \<Rightarrow> error + real tensor" where
  "ne_div_sqrt x z = np_elementwise (\<lambda>a c. a / sqrt c) x z"

definition py_sqrt_div :: "addr \<Rightarrow> addr \<Rightarrow> real heap \<Rightarrow> (error + real tensor) \<times> real heap" where
  "py_sqrt_div x y h =
     (let z = tmap (\<lambda>b. EPSILON + b) (h y)
      in (ne_div_sqrt (h x) z, h))"

text \<open>
  pytorch backend:
  \<^verbatim>\<open>def sqrt_div(x,y): return x.div_(torch.sqrt(EPSILON + y))\<close>.
  \<^verbatim>\<open>div_\<close> divides in place and returns \<open>x\<close>.
\<close>

definition torch_sqrt_div :: "addr \<Rightarrow> addr \<Rightarrow> real heap \<Rightarrow> (error + real tensor) \<times> real heap" where
  "torch_sqrt_div x y h =
     (case torch_pointwise (/) (h x) (tmap sqrt (tmap (\<lambda>b. EPSILON + b) (h y))) of
        Inl e \<Rightarrow> (Inl e, h)
      | Inr r \<Rightarrow> (Inr r, h(x := r)))"

subsection \<open>The specification's words for the results\<close>

text \<open>
  This definition follows the specification, not the source: the weighted average of
  two matrices, entry by entry.
\<close>

definition spec_weighted_average ::
  "'a::{times,plus,minus,one} \<Rightarrow> 'a tensor \<Rightarrow> 'a tensor \<Rightarrow> 'a tensor" where
  "spec_weighted_average w x y =
     Tensor (ncols x) (map2 (map2 (\<lambda>a b. w * a + (1 - w) * b)) (cells x) (cells y))"

subsection \<open>Shapes of the reductions\<close>

text \<open>
  The reductions \<^verbatim>\<open>tmax, tmin, mean, var, std, tsum, tprod, tany, tall\<close> take a
  tensor of any number of dimensions and an axis that is \<^verbatim>\<open>None\<close> or a dimension
  index counted from 0. Only the shape of what they return is modelled: a shape is the
  list of the dimensions, and a result is an array of some shape or a plain number.
\<close>

datatype reduction = TMax | TMin | Mean | Var | Std | TSum | TProd | TAny | TAll

datatype result_shape = Scalar | Array "nat list"

text \<open>
  numpy with \<^verbatim>\<open>keepdims=True\<close>: the reduced dimensions stay, with size 1. With
  \<^verbatim>\<open>axis=None\<close> every dimension is reduced.
\<close>

definition np_keepdims_shape :: "nat list \<Rightarrow> nat option \<Rightarrow> error + result_shape" where
  "np_keepdims_shape s axis =
     (case axis of
        None \<Rightarrow> Inr (Array (map (\<lambda>d. 1) s))
      | Some d \<Rightarrow> if d < length s then Inr (Array (s[d := 1])) else Inl ValueError)"

text \<open>
  python backend, the same line for each of the nine:
  \<^verbatim>\<open>def tmax(x, axis=None): return numpy.max(x, axis=axis, keepdims=True)\<close>
\<close>

definition py_reduce_shape :: "reduction \<Rightarrow> nat list \<Rightarrow> nat option \<Rightarrow> error + result_shape" where
  "py_reduce_shape r s axis = np_keepdims_shape s axis"

text \<open>
  torch, in the version the source is written for, keeps the reduced dimension with
  size 1 when a \<^verbatim>\<open>dim\<close> is given (the source's \<^verbatim>\<open>argmax\<close> depends on it:
  it indexes the result of \<^verbatim>\<open>torch.max(a, dim=1)\<close> with \<^verbatim>\<open>[0,0]\<close>, and the python
  backend says \<^verbatim>\<open>use keepdims = True so that behavior is the same as torch\<close>).
  Without \<^verbatim>\<open>dim\<close>, \<^verbatim>\<open>torch.max(x)\<close>, \<^verbatim>\<open>torch.sum(x)\<close> and the others return
  one number.
\<close>

definition torch_dim_shape :: "nat list \<Rightarrow> nat \<Rightarrow> error + result_shape" where
  "torch_dim_shape s d = (if d < length s then Inr (Array (s[d := 1])) else Inl RuntimeError)"

definition torch_full_shape :: "nat list \<Rightarrow> error + result_shape" where
  "torch_full_shape s = Inr Scalar"

text \<open>
  pytorch backend:
  \<^verbatim>\<open>
  def tmax(x, axis=None):
      if axis is not None:
          return torch.max(x, dim=axis)[0]
      else:
          return torch.max(x)
  \<close>
  and the same for \<^verbatim>\<open>tmin, mean, var, std, tsum, tprod\<close> (without the \<^verbatim>\<open>[0]\<close>,
  which selects the values from the pair of values and indices);
  \<^verbatim>\<open>tany(x, axis)\<close> is \<^verbatim>\<open>tmax(x == True, axis=axis)\<close> and \<^verbatim>\<open>tall(x, axis)\<close> is
  \<^verbatim>\<open>tmin(x == True, axis=axis)\<close>, the comparison keeping the shape of \<open>x\<close>.
\<close>

definition torch_tmax_shape :: "nat list \<Rightarrow> nat option \<Rightarrow> error + result_shape" where
  "torch_tmax_shape s axis =
     (case axis of Some d \<Rightarrow> torch_dim_shape s d | None \<Rightarrow> torch_full_shape s)"

definition torch_tmin_shape :: "nat list \<Rightarrow> nat option \<Rightarrow> error + result_shape" where
  "torch_tmin_shape s axis =
     (case axis of Some d \<Rightarrow> torch_dim_shape s d | None \<Rightarrow> torch_full_shape s)"

fun torch_reduce_shape :: "reduction \<Rightarrow> nat list \<Rightarrow> nat option \<Rightarrow> error + result_shape" where
  "torch_reduce_shape TMax s axis = torch_tmax_shape s axis"
| "torch_reduce_shape TMin s axis = torch_tmin_shape s axis"
| "torch_reduce_shape TAny s axis = torch_tmax_shape s axis"
| "torch_reduce_shape TAll s axis = torch_tmin_shape s axis"
| "torch_reduce_shape r s axis =
     (case axis of Some d \<Rightarrow> torch_dim_shape s d | None \<Rightarrow> torch_full_shape s)"

subsection \<open>dtype\<close>

text \<open>
  python backend: \<^verbatim>\<open>def dtype(tensor): return tensor.dtype\<close>. The arrays of the
  backend are made by \<^verbatim>\<open>float_tensor\<close>, \<^verbatim>\<open>zeros\<close>, \<^verbatim>\<open>ones\<close> with
  \<^verbatim>\<open>dtype=numpy.float32\<close>.
\<close>

definition py_dtype :: "'a tensor \<Rightarrow> error + dtype" where
  "py_dtype t = Inr Float32"

text \<open>
  pytorch backend: \<^verbatim>\<open>def dtype(tensor): raise tensor.type()\<close>.
  \<^verbatim>\<open>tensor.type()\<close> is the name of the tensor class, a string; the statement raises
  that string. Python 3 refuses to raise an object that is not an exception and raises
  TypeError in its place (the module is Python 3: it uses the operator \<^verbatim>\<open>@\<close>).
\<close>

definition tensor_type :: "'a tensor \<Rightarrow> string" where
  "tensor_type t = ''torch.FloatTensor''"

definition raise_str :: "string \<Rightarrow> error" where
  "raise_str s = TypeError"

definition torch_dtype :: "'a tensor \<Rightarrow> error + dtype" where
  "torch_dtype t = Inl (raise_str (tensor_type t))"

subsection \<open>The stubs of the pytorch backend\<close>

text \<open>
  Each of these functions of the pytorch backend has the body
  \<^verbatim>\<open>raise NotImplementedError\<close> (after a docstring, for some). Tensor arguments
  are addresses; the heap is returned as it was received.
\<close>

definition torch_batch_dot ::
  "addr \<Rightarrow> addr \<Rightarrow> addr \<Rightarrow> int \<Rightarrow> 'a heap \<Rightarrow> (error + 'a list) \<times> 'a heap" where
  "torch_batch_dot vis W hid axis h = (Inl NotImplementedError, h)"

definition torch_batch_outer ::
  "addr \<Rightarrow> addr \<Rightarrow> 'a heap \<Rightarrow> (error + 'a tensor) \<times> 'a heap" where
  "torch_batch_outer vis hid h = (Inl NotImplementedError, h)"

definition torch_repeat ::
  "addr \<Rightarrow> int \<Rightarrow> int \<Rightarrow> 'a heap \<Rightarrow> (error + 'a tensor) \<times> 'a heap" where
  "torch_repeat t n axis h = (Inl NotImplementedError, h)"

definition torch_stack ::
  "addr list \<Rightarrow> int \<Rightarrow> 'a heap \<Rightarrow> (error + 'a tensor) \<times> 'a heap" where
  "torch_stack ts axis h = (Inl NotImplementedError, h)"

definition torch_hstack ::
  "addr list \<Rightarrow> 'a heap \<Rightarrow> (error + 'a tensor) \<times> 'a heap" where
  "torch_hstack ts h = (Inl NotImplementedError, h)"

definition torch_vstack ::
  "addr list \<Rightarrow> 'a heap \<Rightarrow> (error + 'a tensor) \<times> 'a heap" where
  "torch_vstack ts h = (Inl NotImplementedError, h)"

definition torch_trange ::
  "'a \<Rightarrow> 'a \<Rightarrow> 'a \<Rightarrow> 'a heap \<Rightarrow> (error + 'a list) \<times> 'a heap" where
  "torch_trange start end step h = (Inl NotImplementedError, h)"

definition torch_squared_euclidean_distance ::
  "addr \<Rightarrow> addr \<Rightarrow> 'a heap \<Rightarrow> (error + 'a) \<times> 'a heap" where
  "torch_squared_euclidean_distance a b h = (Inl NotImplementedError, h)"

definition torch_euclidean_distance ::
  "addr \<Rightarrow> addr \<Rightarrow> 'a heap \<Rightarrow> (error + 'a) \<times> 'a heap" where
  "torch_euclidean_distance a b h = (Inl NotImplementedError, h)"

definition torch_fast_energy_distance ::
  "addr \<Rightarrow> addr \<Rightarrow> int \<Rightarrow> 'a heap \<Rightarrow> (error + 'a) \<times> 'a heap" where
  "torch_fast_energy_distance minibatch samples downsample h = (Inl NotImplementedError, h)"

section \<open>Theorems\<close>

text \<open>
  C4. In the pytorch backend, batch_dot, batch_outer, repeat, stack, hstack, vstack,
  trange, squared_euclidean_distance, euclidean_distance and fast_energy_distance are
  stubs: on every input each raises NotImplementedError, and the heap, hence every
  argument, is as it was before the call.
\<close>

theorem torch_stubs_raise:
  "torch_batch_dot vis W hid axis h = (Inl NotImplementedError, h)
   \<and> torch_batch_outer vis hid h = (Inl NotImplementedError, h)
   \<and> torch_repeat t n ax h = (Inl NotImplementedError, h)
   \<and> torch_stack ts ax h = (Inl NotImplementedError, h)
   \<and> torch_hstack ts h = (Inl NotImplementedError, h)
   \<and> torch_vstack ts h = (Inl NotImplementedError, h)
   \<and> torch_trange start end step h = (Inl NotImplementedError, h)
   \<and> torch_squared_euclidean_distance a b h = (Inl NotImplementedError, h)
   \<and> torch_euclidean_distance a b h = (Inl NotImplementedError, h)
   \<and> torch_fast_energy_distance minibatch samples downsample h = (Inl NotImplementedError, h)"
  by (simp add: torch_batch_dot_def torch_batch_outer_def torch_repeat_def torch_stack_def
      torch_hstack_def torch_vstack_def torch_trange_def torch_squared_euclidean_distance_def
      torch_euclidean_distance_def torch_fast_energy_distance_def)

text \<open>
  C8. In the pytorch backend dtype never returns a value: for every tensor the result
  is an exception. The python backend's dtype returns the array's dtype.
\<close>

theorem torch_dtype_always_raises:
  "(\<exists>e. torch_dtype t = Inl e) \<and> (\<exists>d. py_dtype t = Inr d)"
  by (simp add: torch_dtype_def py_dtype_def)

subsection \<open>fast_energy_distance\<close>

lemmas energy_eval =
  fast_energy_distance_def nrows_def random_choice_def Let_def
  energy_loops_def indexed_distance_def get_def get_row_def euclidean_distance_def
  squared_euclidean_distance_def ebind_def fdiv_def upt_rec





text \<open>
  C2. The claim: for non-empty matrices and a positive downsample,
  fast_energy_distance returns \<open>2*d3 - d2 - d1\<close> with \<open>d2\<close> the mean pairwise
  distance within the subsample of samples. The source's second loop takes its first
  row through \<^verbatim>\<open>index_1\<close>, the indices drawn for minibatch. At the input below
  the generator yields \<open>index_1 = [0, 0]\<close> and \<open>index_2 = [1, 1]\<close>: the code
  returns 1, and the energy distance of the two subsamples, as the claim words it, is 2.
\<close>

theorem fast_energy_distance_d2_mixes_indices:
  "fst (random_choice 2 2 (\<lambda>i. if i < 2 then 0 else 1)) = Inr [0, 0]
   \<and> fst (random_choice 2 2 (snd (random_choice 2 2 (\<lambda>i. if i < 2 then 0 else 1))))
       = Inr [1, 1]
   \<and> fst (fast_energy_distance (Tensor 1 [[0], [0]]) (Tensor 1 [[0], [1]]) 2
            (\<lambda>i. if i < 2 then 0 else 1)) = Inr 1
   \<and> spec_energy_distance [[0], [0]] [[1], [1]] = 2"
  by (simp add: energy_eval spec_energy_distance_def spec_mean_between_def
      spec_mean_within_def spec_distance_def lessThan_Suc numeral_2_eq_2)

text \<open>
  C9. The claim: every index used in fast_energy_distance is in bounds, in particular
  the indices applied to samples in the loop for \<open>d2\<close>. With three rows in
  minibatch, two rows in samples and a generator that draws 2, the loop for \<open>d2\<close>
  reads \<^verbatim>\<open>samples[index_1[0]]\<close>, that is row 2 of a two-row matrix. With two rows in
  minibatch and four in samples the same loop reads \<^verbatim>\<open>index_1[2]\<close>, past the end of
  \<^verbatim>\<open>index_1\<close>.
\<close>

theorem fast_energy_distance_d2_out_of_bounds:
  "fst (fast_energy_distance (Tensor 1 [[0], [0], [0]]) (Tensor 1 [[0], [1]]) 100 (\<lambda>i. 2))
     = Inl IndexError
   \<and> fst (fast_energy_distance (Tensor 1 [[0], [0]]) (Tensor 1 [[0], [1], [0], [0]]) 100
            (\<lambda>i. 0))
     = Inl IndexError"
  by (simp add: energy_eval)




subsection \<open>Elementwise operations on tensors of one shape\<close>

lemma bcell_in_range:
  assumes "i < nrows t" "j < ncols t"
  shows "bcell t i j = cells t ! i ! j"
  using assms by (auto simp add: bcell_def)

lemma wf_row_length:
  assumes "wf_tensor t" "i < nrows t"
  shows "length (cells t ! i) = ncols t"
  using assms by (simp add: wf_tensor_def nrows_def list_all_length)

lemma np_elementwise_same_shape:
  assumes "wf_tensor x" "wf_tensor y" "shape x = shape y"
  shows "np_elementwise f x y = Inr (Tensor (ncols x) (map2 (map2 f) (cells x) (cells y)))"
proof -
  have r: "nrows y = nrows x" and c: "ncols y = ncols x"
    using assms(3) by (simp_all add: shape_def)
  have "map (\<lambda>i. map (\<lambda>j. f (bcell x i j) (bcell y i j)) [0..<ncols x]) [0..<nrows x]
          = map2 (map2 f) (cells x) (cells y)"
  proof (rule nth_equalityI)
    show "length (map (\<lambda>i. map (\<lambda>j. f (bcell x i j) (bcell y i j)) [0..<ncols x]) [0..<nrows x])
            = length (map2 (map2 f) (cells x) (cells y))"
      using r by (simp add: nrows_def)
  next
    fix i
    assume "i < length (map (\<lambda>i. map (\<lambda>j. f (bcell x i j) (bcell y i j)) [0..<ncols x]) [0..<nrows x])"
    then have i: "i < nrows x" by simp
    then have iy: "i < nrows y" using r by simp
    have lx: "length (cells x ! i) = ncols x" using assms(1) i by (rule wf_row_length)
    have ly: "length (cells y ! i) = ncols x" using wf_row_length [OF assms(2) iy] c by simp
    have "map (\<lambda>j. f (bcell x i j) (bcell y i j)) [0..<ncols x] = map2 f (cells x ! i) (cells y ! i)"
      using i iy lx ly c by (intro nth_equalityI) (simp_all add: bcell_in_range)
    then show "map (\<lambda>i. map (\<lambda>j. f (bcell x i j) (bcell y i j)) [0..<ncols x]) [0..<nrows x] ! i
                 = map2 (map2 f) (cells x) (cells y) ! i"
      using i iy by (simp add: nrows_def)
  qed
  then show ?thesis
    using r c by (simp add: np_elementwise_def broadcast_dim_def)
qed


lemma shape_tmap: "shape (tmap f t) = shape t"
  by (simp add: shape_def tmap_def nrows_def)

lemma map2_map_map:
  "map2 f (map g xs) (map k ys) = map2 (\<lambda>a b. f (g a) (k b)) xs ys"
  by (simp add: zip_map_map split_def)

lemma map2_map2_map_map:
  "map2 (map2 f) (map (map g) xs) (map (map k) ys) = map2 (map2 (\<lambda>a b. f (g a) (k b))) xs ys"
  by (simp add: zip_map_map split_def)

lemma shape_same_rows:
  assumes "shape x = shape y"
  shows "shape (Tensor (ncols x) (map2 g (cells x) (cells y))) = shape x"
  using assms by (simp add: shape_def nrows_def)

lemma py_mix_inplace_result:
  assumes "wf_tensor (h x)" "wf_tensor (h y)" "shape (h x) = shape (h y)"
  shows "py_mix_inplace w x y h = (Inr (), h(x := spec_weighted_average w (h x) (h y)))"
  using assms
  by (simp add: py_mix_inplace_def ne_evaluate_out_def np_elementwise_same_shape
      shape_same_rows spec_weighted_average_def)

lemma torch_mix_inplace_result:
  fixes w :: "'a::{times,plus,minus,one}"
  assumes comm: "\<forall>a b :: 'a. a * b = b * a"
    and "x \<noteq> y" "shape (h x) = shape (h y)"
  shows "torch_mix_inplace w x y h = (Inr (), h(x := spec_weighted_average w (h x) (h y)))"
proof -
  have "torch_pointwise (+) (tmap (\<lambda>a. a * w) (h x)) (tmap (\<lambda>b. b * (1 - w)) (h y))
          = Inr (Tensor (ncols (h x))
               (map2 (map2 (\<lambda>a b. a * w + b * (1 - w))) (cells (h x)) (cells (h y))))"
    using assms(3) by (simp add: torch_pointwise_def shape_tmap) (simp add: tmap_def map2_map2_map_map)
  moreover have "(\<lambda>a b. a * w + b * (1 - w)) = (\<lambda>a b. w * a + (1 - w) * b)"
    using comm by simp
  ultimately show ?thesis
    using assms(2) by (simp add: torch_mix_inplace_def Let_def spec_weighted_average_def)
qed

subsection \<open>mix_inplace\<close>

text \<open>
  C6. The claim: for every scalar \<open>w\<close> and every pair of same-shaped matrices
  \<open>x\<close> and \<open>y\<close>, mix_inplace in either backend overwrites \<open>x\<close> with
  \<open>w*x + (1-w)*y\<close> and leaves \<open>y\<close> unchanged. The pytorch version runs
  \<^verbatim>\<open>x.mul_(w)\<close> before it reads \<open>y\<close>. When \<open>x\<close> and \<open>y\<close> are the same array,
  \<open>y\<close> has been scaled by then: with \<open>w = 2\<close> and the one-entry matrix 1 the
  pytorch version leaves 0, where the weighted average that its docstring promises
  (\<^verbatim>\<open>x <- w * x + (1-w) * y\<close>) is 1, and where the python version leaves 1. All values
  at this input are exact in float32.
\<close>

theorem mix_inplace_aliased:
  "snd (torch_mix_inplace 2 0 0 (\<lambda>a. Tensor 1 [[1 :: real]])) 0 = Tensor 1 [[0]]
   \<and> snd (py_mix_inplace 2 0 0 (\<lambda>a. Tensor 1 [[1 :: real]])) 0 = Tensor 1 [[1]]
   \<and> spec_weighted_average 2 (Tensor 1 [[1 :: real]]) (Tensor 1 [[1]]) = Tensor 1 [[1]]"
  by (simp add: torch_mix_inplace_def Let_def tmap_def torch_pointwise_def shape_def nrows_def
      spec_weighted_average_def py_mix_inplace_def ne_evaluate_out_def np_elementwise_def
      broadcast_dim_def bcell_def)

text \<open>
  On two different arrays the two versions do what the docstrings say: both return
  normally, leave the weighted average in \<open>x\<close> and leave \<open>y\<close> as it was. The only
  law of arithmetic used is that multiplication commutes (torch computes
  \<open>x*w + y*(1-w)\<close>), which holds for float32 multiplication too.
\<close>

lemma mix_inplace_distinct_arrays:
  fixes w :: "'a::{times,plus,minus,one}"
  assumes "\<forall>a b :: 'a. a * b = b * a"
    and "x \<noteq> y" "wf_tensor (h x)" "wf_tensor (h y)" "shape (h x) = shape (h y)"
  shows "py_mix_inplace w x y h = (Inr (), h(x := spec_weighted_average w (h x) (h y)))
       \<and> torch_mix_inplace w x y h = (Inr (), h(x := spec_weighted_average w (h x) (h y)))
       \<and> snd (py_mix_inplace w x y h) y = h y
       \<and> snd (torch_mix_inplace w x y h) y = h y"
  using assms by (simp add: py_mix_inplace_result torch_mix_inplace_result)

lemma mix_inplace_distinct_arrays_example:
  "snd (py_mix_inplace (1 / 2) 0 1 (\<lambda>a. if a = 0 then Tensor 2 [[1, 2 :: real]] else Tensor 2 [[3, 4]])) 0
      = Tensor 2 [[2, 3]]
   \<and> snd (torch_mix_inplace (1 / 2) 0 1 (\<lambda>a. if a = 0 then Tensor 2 [[1, 2 :: real]] else Tensor 2 [[3, 4]])) 0
      = Tensor 2 [[2, 3]]
   \<and> snd (torch_mix_inplace (1 / 2) 0 1 (\<lambda>a. if a = 0 then Tensor 2 [[1, 2 :: real]] else Tensor 2 [[3, 4]])) 1
      = Tensor 2 [[3, 4]]"
  using mix_inplace_distinct_arrays
     [where w = "1 / 2 :: real" and x = 0 and y = 1
        and h = "\<lambda>a. if a = 0 then Tensor 2 [[1, 2]] else Tensor 2 [[3, 4]]"]
  by (simp add: wf_tensor_def shape_def nrows_def spec_weighted_average_def)

subsection \<open>sqrt_div in the two backends\<close>

text \<open>
  C1. The claim: for every function name defined in both backends, the two versions
  yield the same values, the same shapes and the same in-place or out-of-place
  behaviour on corresponding inputs. sqrt_div is one of the names the claim lists. The
  python version returns a new array and leaves \<open>x\<close> as it was; the pytorch version
  divides with \<^verbatim>\<open>div_\<close>, which overwrites \<open>x\<close>. At \<open>x = 2\<close>, \<open>y = 4\<close> the
  array \<open>x\<close> still holds 2 after the python call and no longer holds 2 after the
  pytorch call (in float32 it holds 1).
\<close>

theorem sqrt_div_overwrites_x_in_pytorch:
  "snd (py_sqrt_div 0 1 (\<lambda>a. if a = 0 then Tensor 1 [[2]] else Tensor 1 [[4]])) 0
      = Tensor 1 [[2]]
   \<and> snd (torch_sqrt_div 0 1 (\<lambda>a. if a = 0 then Tensor 1 [[2]] else Tensor 1 [[4]])) 0
      \<noteq> Tensor 1 [[2]]
   \<and> (\<exists>r. fst (torch_sqrt_div 0 1 (\<lambda>a. if a = 0 then Tensor 1 [[2]] else Tensor 1 [[4]]))
              = Inr r
            \<and> snd (torch_sqrt_div 0 1 (\<lambda>a. if a = 0 then Tensor 1 [[2]] else Tensor 1 [[4]])) 0
              = r)"
proof -
  have pos: "0 < sqrt (EPSILON + 4)"
    by (simp add: EPSILON_def)
  have "2 / sqrt (EPSILON + 4) \<noteq> 2"
  proof
    assume "2 / sqrt (EPSILON + 4) = 2"
    then have "sqrt (EPSILON + 4) = 1"
      using pos by (simp add: field_simps)
    then have "EPSILON + 4 = 1"
      by (simp only: real_sqrt_eq_1_iff)
    then show False
      by (simp add: EPSILON_def)
  qed
  then show ?thesis
    by (simp add: py_sqrt_div_def torch_sqrt_div_def torch_pointwise_def shape_def nrows_def
        tmap_def Let_def)
qed

text \<open>
  The python sqrt_div is also the one wrapper whose library call does not see the
  argument it was given: it calls the library on \<open>x\<close> and \<open>EPSILON + y\<close>. At
  \<open>x = 1\<close>, \<open>y = EPSILON\<close> it returns 2048, and the library call on \<open>x\<close> and
  \<open>y\<close> themselves returns \<open>1 / sqrt EPSILON\<close>, which is not 2048.
\<close>

lemma sqrt_div_adds_epsilon:
  "fst (py_sqrt_div 0 1 (\<lambda>a. if a = 0 then Tensor 1 [[1]] else Tensor 1 [[EPSILON]]))
     = Inr (Tensor 1 [[2048]])
   \<and> ne_div_sqrt (Tensor 1 [[1]]) (Tensor 1 [[EPSILON]]) = Inr (Tensor 1 [[1 / sqrt EPSILON]])
   \<and> 1 / sqrt EPSILON \<noteq> 2048"
proof -
  have s: "sqrt (2 * EPSILON) = 1 / 2048"
  proof -
    have "2 * EPSILON = (1 / 2048)\<^sup>2" by (simp add: EPSILON_def power2_eq_square)
    then have "sqrt (2 * EPSILON) = sqrt ((1 / 2048)\<^sup>2)" by (simp only:)
    also have "\<dots> = \<bar>1 / 2048\<bar>" by (rule real_sqrt_abs)
    also have "\<dots> = 1 / 2048" by simp
    finally show ?thesis .
  qed
  have n: "1 / sqrt EPSILON \<noteq> 2048"
  proof
    assume "1 / sqrt EPSILON = 2048"
    then have "(1 / sqrt EPSILON)\<^sup>2 = 2048\<^sup>2" by simp
    moreover have "(1 / sqrt EPSILON)\<^sup>2 = 1 / EPSILON"
      by (simp add: power_divide EPSILON_def)
    ultimately show False by (simp add: EPSILON_def)
  qed
  show ?thesis
    using n by (simp add: py_sqrt_div_def ne_div_sqrt_def np_elementwise_def broadcast_dim_def
        nrows_def tmap_def bcell_def Let_def s)
qed

subsection \<open>Shapes of the reductions\<close>

lemma torch_reduce_shape_cases:
  "torch_reduce_shape r s axis
     = (case axis of Some d \<Rightarrow> torch_dim_shape s d | None \<Rightarrow> torch_full_shape s)"
  by (cases r) (simp_all add: torch_tmax_shape_def torch_tmin_shape_def)

text \<open>
  C3. The claim: for each of the nine reductions, every tensor and every axis
  (\<^verbatim>\<open>None\<close> or a valid dimension index), the two backends return results of the
  same shape. With \<^verbatim>\<open>axis=None\<close> every reduction of the python backend returns
  an array with all dimensions of size 1, and every reduction of the pytorch backend a
  plain number: on a \<open>2 \<times> 3\<close> matrix, tsum returns an array of shape \<open>(1, 1)\<close>
  in the python backend and a number in the pytorch backend.
\<close>

theorem reductions_axis_none_shapes_differ:
  "py_reduce_shape r s None = Inr (Array (map (\<lambda>d. 1) s))
   \<and> torch_reduce_shape r s None = Inr Scalar
   \<and> py_reduce_shape TSum [2, 3] None = Inr (Array [1, 1])
   \<and> torch_reduce_shape TSum [2, 3] None = Inr Scalar"
  by (simp add: py_reduce_shape_def np_keepdims_shape_def torch_reduce_shape_cases
      torch_full_shape_def)

text \<open>
  With a dimension index below the number of dimensions, the two backends do return
  the same shape: the shape of the input with that dimension set to 1.
\<close>

lemma reductions_same_shape_on_dim:
  assumes "d < length s"
  shows "py_reduce_shape r s (Some d) = Inr (Array (s[d := 1]))
         \<and> torch_reduce_shape r s (Some d) = Inr (Array (s[d := 1]))"
  using assms
  by (simp add: py_reduce_shape_def np_keepdims_shape_def torch_reduce_shape_cases torch_dim_shape_def)

end
